theory Spec2Isabelle
  imports Complex_Main "HOL-Library.Sublist"
begin

section \<open>Python primitives used by the source\<close>

text \<open>
  Strings are \<^typ>\<open>string\<close>. The case mappings below are those of \<open>str.upper\<close> and
  \<open>str.lower\<close> on ASCII text: the 26 letters are mapped, every other character is left
  as it is. \<open>str.split()\<close> with no argument cuts at runs of white space and drops empty
  pieces; the white-space characters are the ASCII ones for which \<open>str.isspace\<close> holds.
\<close>

definition ascii_lowercase :: string where
  "ascii_lowercase = ''abcdefghijklmnopqrstuvwxyz''"

definition ascii_uppercase :: string where
  "ascii_uppercase = ''ABCDEFGHIJKLMNOPQRSTUVWXYZ''"

definition upper_char :: "char \<Rightarrow> char" where
  "upper_char c = (case map_of (zip ascii_lowercase ascii_uppercase) c of Some u \<Rightarrow> u | None \<Rightarrow> c)"

definition lower_char :: "char \<Rightarrow> char" where
  "lower_char c = (case map_of (zip ascii_uppercase ascii_lowercase) c of Some l \<Rightarrow> l | None \<Rightarrow> c)"

definition lower :: "string \<Rightarrow> string" where
  "lower s = map lower_char s"

definition is_space :: "char \<Rightarrow> bool" where
  "is_space c = (c \<in> set [CHR 0x20, CHR 0x09, CHR 0x0A, CHR 0x0B, CHR 0x0C, CHR 0x0D,
                           CHR 0x1C, CHR 0x1D, CHR 0x1E, CHR 0x1F])"

text \<open>\<open>split_from cur s\<close>: the words of \<open>s\<close>, where \<open>cur\<close> is the word being read.\<close>

fun split_from :: "string \<Rightarrow> string \<Rightarrow> string list" where
  "split_from cur [] = (if cur = [] then [] else [cur])"
| "split_from cur (c # cs) =
     (if is_space c then (if cur = [] then split_from [] cs else cur # split_from [] cs)
      else split_from (cur @ [c]) cs)"

definition py_split :: "string \<Rightarrow> string list" where
  "py_split s = split_from [] s"

text \<open>\<open>" ".join(xs)\<close>.\<close>

fun join_space :: "string list \<Rightarrow> string" where
  "join_space [] = []"
| "join_space [x] = x"
| "join_space (x # y # ys) = x @ '' '' @ join_space (y # ys)"

text \<open>
  Truth value of an optional string: \<open>None\<close> and the empty string are false.
  \<open>str_of\<close> reads the string once it is known to be true.
\<close>

definition truthy :: "string option \<Rightarrow> bool" where
  "truthy x = (case x of None \<Rightarrow> False | Some s \<Rightarrow> s \<noteq> [])"

definition str_of :: "string option \<Rightarrow> string" where
  "str_of x = (case x of None \<Rightarrow> [] | Some s \<Rightarrow> s)"

text \<open>\<open>os.path.join\<close> with two arguments, as \<open>posixpath\<close> defines it.\<close>

definition path_join :: "string \<Rightarrow> string \<Rightarrow> string" where
  "path_join a b =
     (if prefix ''/'' b then b
      else if a = [] \<or> suffix ''/'' a then a @ b
      else a @ ''/'' @ b)"

text \<open>A call of code that is not part of the repository either raises or returns.\<close>

datatype 'a outcome = Raises | Returns 'a

text \<open>An attribute of a Python object: missing (\<open>hasattr\<close> is false) or bound to a value.\<close>

datatype 'a attr = NoAttr | Attr 'a


section \<open>Text shaping: \<open>FileTranscriber._format_text\<close>\<close>

definition question_starters :: "string list" where
  "question_starters = [''what'', ''who'', ''where'', ''when'', ''why'', ''how'', ''is'', ''are'',
     ''do'', ''does'', ''did'', ''can'', ''could'', ''will'', ''would'']"

definition terminal_marks :: "char list" where
  "terminal_marks = [CHR ''.'', CHR ''?'', CHR ''!'', CHR '','', CHR '';'', CHR '':'', CHR ''-'']"

definition format_text :: "string \<Rightarrow> string" where
  "format_text text =
     (if text = [] then text
      else
        let text1 = upper_char (hd text) # tl text;
            text2 = (if last text1 \<notin> set terminal_marks then text1 @ ''.'' else text1);
            words = py_split text2
        in if words \<noteq> [] \<and> lower (hd words) \<in> set question_starters
           then (if last text2 = CHR ''.'' then butlast text2 @ ''?'' else text2)
           else text2)"


section \<open>The engine orchestrator: \<open>ASRModelManager\<close>\<close>

subsection \<open>Data\<close>

text \<open>
  The engine classes \<open>VoskASR\<close> and \<open>SherpaOnnxASR\<close> are imported by the module; an
  engine object of any other class can be bound to \<open>current_engine\<close> as well. An engine is
  modelled by its class and by the attributes the manager reads: \<open>engine_type\<close>,
  \<open>model_dir\<close>, \<open>is_int8\<close>, \<open>model_config\<close>, the truth values of \<open>model\<close> and
  \<open>recognizer\<close>, and whether it has a \<open>transcribe_file\<close> method.
\<close>

datatype engine_class = VoskASR | SherpaOnnxASR | OtherEngine

record engine_cfg =
  ec_type :: "string option"
  ec_name :: "string option"

record engine =
  engine_cls :: engine_class
  engine_type :: "string option attr"
  model_dir :: "string attr"
  is_int8 :: "bool attr"
  model_config :: "engine_cfg attr"
  model :: bool
  recognizer :: bool
  has_transcribe_file :: bool

text \<open>One entry of \<open>models_config\<close>: the keys \<open>path\<close>, \<open>enabled\<close> and \<open>type\<close>.\<close>

record model_cfg =
  cfg_path :: "string option"
  cfg_enabled :: "bool option"
  cfg_type :: "string option"

record device =
  dev_index :: string
  dev_name :: string
  dev_is_input :: bool

text \<open>
  The Qt signals of the manager and of the file transcriber. The message texts of
  \<open>status_updated\<close> and \<open>error_occurred\<close> are left out; \<open>new_text\<close> carries the shaped
  text without its header line, and \<open>NewTextNoResult\<close> is the \<open>new_text\<close> signal
  whose text is the fixed notice that nothing was transcribed.
\<close>

datatype signal =
    ModelLoaded bool
  | RecognitionStarted
  | RecognitionStopped
  | ErrorOccurred
  | StatusUpdated
  | ProgressUpdated int
  | NewText string
  | NewTextNoResult
  | TranscriptionStarted
  | TranscriptionFinished

record manager =
  models_config :: "string \<rightharpoonup> model_cfg"
  current_model :: bool
  model_type :: "string option"
  current_model_type :: "string option"
  current_engine :: "engine option"
  current_device :: "device option"
  is_recognizing :: bool
  emitted :: "signal list"

text \<open>
  What the manager calls but does not define: the file system (\<open>os.path.exists\<close>,
  \<open>os.path.isdir\<close>), the two engine constructors, \<open>SherpaOnnxASR.setup\<close>, an engine's
  \<open>transcribe_file\<close>, and the run of a \<open>FileTranscriber\<close> on a file that is not a WAV
  file, of which the manager sees the texts it collected.
\<close>

record env =
  path_exists :: "string set"
  path_isdir :: "string set"
  new_VoskASR :: "string \<Rightarrow> engine outcome"
  new_SherpaOnnxASR :: "string \<Rightarrow> engine_cfg \<Rightarrow> engine outcome"
  engine_setup :: "engine \<Rightarrow> engine \<times> bool outcome"
  engine_transcribe_file :: "engine \<Rightarrow> string \<Rightarrow> string option outcome"
  file_transcriber_texts :: "engine \<Rightarrow> string \<Rightarrow> string list outcome"

subsection \<open>Model validation\<close>

definition vosk_files_ok :: "env \<Rightarrow> string \<Rightarrow> bool" where
  "vosk_files_ok ev model_path =
     (if model_path \<in> path_exists ev \<and> model_path \<in> path_isdir ev then
        let am_dir = path_join model_path ''am'' in
        if am_dir \<in> path_exists ev \<and> am_dir \<in> path_isdir ev then
          let final_mdl = path_join am_dir ''final.mdl'' in
          if final_mdl \<in> path_exists ev then True else False
        else False
      else False)"

definition sherpa_required_files :: "bool \<Rightarrow> bool \<Rightarrow> string list" where
  "sherpa_required_files is_0626 int8 =
     (if is_0626 then
        map (\<lambda>base. if int8 then base @ ''-epoch-99-avg-1-chunk-16-left-128'' @ ''.int8.onnx''
                     else base @ ''-epoch-99-avg-1-chunk-16-left-128'' @ ''.onnx'')
            [''encoder'', ''decoder'', ''joiner''] @ [''tokens.txt'']
      else
        map (\<lambda>base. if int8 then base @ ''-epoch-99-avg-1.int8.onnx''
                     else base @ ''-epoch-99-avg-1.onnx'')
            [''encoder'', ''decoder'', ''joiner''] @ [''tokens.txt''])"

definition sherpa_files_ok :: "env \<Rightarrow> manager \<Rightarrow> string \<Rightarrow> string \<Rightarrow> bool" where
  "sherpa_files_ok ev s model_path mt =
     (let config_model_type =
            lower (case models_config s mt of None \<Rightarrow> ''standard''
                   | Some c \<Rightarrow> (case cfg_type c of None \<Rightarrow> ''standard'' | Some t \<Rightarrow> t));
          int8 = (config_model_type = ''int8'');
          is_0626 = sublist ''0626'' mt
      in list_all (\<lambda>file. path_join model_path file \<in> path_exists ev)
                  (sherpa_required_files is_0626 int8))"

text \<open>\<open>validate_model_files(model_path, model_type=None)\<close>.\<close>

definition validate_model_files :: "env \<Rightarrow> manager \<Rightarrow> string \<Rightarrow> string option \<Rightarrow> bool" where
  "validate_model_files ev s model_path model_type_arg =
     (let mt = (case model_type_arg of None \<Rightarrow> model_type s | Some t \<Rightarrow> Some t) in
      if model_path \<notin> path_exists ev then False
      else if mt = Some ''vosk_small'' \<or> sublist ''vosk'' (lower model_path) then
        vosk_files_ok ev model_path
      else if truthy mt \<and> prefix ''sherpa'' (str_of mt) then
        sherpa_files_ok ev s model_path (str_of mt)
      else False)"

text \<open>\<open>_validate_model_path(model_path, model_type=None)\<close>.\<close>

definition validate_model_path :: "env \<Rightarrow> manager \<Rightarrow> string \<Rightarrow> string option \<Rightarrow> bool" where
  "validate_model_path ev s model_path model_type_arg =
     (if model_path = [] then False
      else if model_path \<notin> path_exists ev then False
      else
        let mt = (case model_type_arg of None \<Rightarrow> model_type s | Some t \<Rightarrow> Some t) in
        if mt = Some ''vosk_small'' then vosk_files_ok ev model_path
        else if truthy mt \<and> prefix ''sherpa'' (str_of mt) then
          sherpa_files_ok ev s model_path (str_of mt)
        else False)"

subsection \<open>Resolving the active identity: \<open>get_current_engine_type\<close>\<close>

text \<open>The warnings the function logs; everything it logs at a lower level is left out.\<close>

datatype warning =
    EngineMismatch string
  | InferredMismatch string string
  | KeepModelType string

definition attr_true :: "bool attr \<Rightarrow> bool" where
  "attr_true a = (case a of NoAttr \<Rightarrow> False | Attr b \<Rightarrow> b)"

text \<open>\<open>hasattr(e, 'engine_type') and e.engine_type != v\<close>, then \<open>e.engine_type = v\<close>.\<close>

definition correct_engine_type :: "string \<Rightarrow> engine \<Rightarrow> engine" where
  "correct_engine_type v e =
     (case engine_type e of
        NoAttr \<Rightarrow> e
      | Attr x \<Rightarrow> if x \<noteq> Some v then e\<lparr>engine_type := Attr (Some v)\<rparr> else e)"

text \<open>The test \<open>is_match\<close> of the declared model type against the engine's attributes.\<close>

definition engine_matches :: "string \<Rightarrow> engine \<Rightarrow> bool" where
  "engine_matches mt e =
     (if engine_cls e = SherpaOnnxASR then
        (if sublist ''0626'' mt then
           (let md = (case model_dir e of NoAttr \<Rightarrow> [] | Attr d \<Rightarrow> d) in
            if sublist ''0626'' md \<or> sublist ''2023-06-26'' md then
              (if sublist ''int8'' mt \<and> attr_true (is_int8 e) then True
               else if \<not> sublist ''int8'' mt \<and> \<not> attr_true (is_int8 e) then True
               else False)
            else False)
         else
           (if sublist ''int8'' mt \<and> attr_true (is_int8 e) then True
            else if sublist ''std'' mt \<and> \<not> attr_true (is_int8 e) then True
            else False))
      else False)"

text \<open>The name inferred for a \<open>SherpaOnnxASR\<close> engine from its attributes.\<close>

definition sherpa_inferred :: "engine \<Rightarrow> string" where
  "sherpa_inferred e =
     (case (case model_config e of NoAttr \<Rightarrow> None
            | Attr c \<Rightarrow> if ec_type c = None \<and> ec_name c = None then None else Some c) of
        Some c \<Rightarrow>
          (if ec_name c = Some ''0626'' then
             (if ec_type c = Some ''int8'' then ''sherpa_0626_int8'' else ''sherpa_0626_std'')
           else
             (if ec_type c = Some ''int8'' then ''sherpa_onnx_int8'' else ''sherpa_onnx_std''))
      | None \<Rightarrow>
          (let md = (case model_dir e of NoAttr \<Rightarrow> [] | Attr d \<Rightarrow> d) in
           if sublist ''0626'' md \<or> sublist ''2023-06-26'' md then
             (if attr_true (is_int8 e) then ''sherpa_0626_int8'' else ''sherpa_0626_std'')
           else
             (if attr_true (is_int8 e) then ''sherpa_onnx_int8'' else ''sherpa_onnx_std'')))"

text \<open>
  The inference of \<open>engine_type\<close> from \<open>current_engine\<close>: the engine as the inference
  leaves it, and the inferred name.
\<close>

definition infer_engine_type :: "engine option \<Rightarrow> engine option \<times> string option" where
  "infer_engine_type eo =
     (case eo of
        None \<Rightarrow> (None, None)
      | Some e \<Rightarrow>
          if engine_cls e = VoskASR then
            (Some (correct_engine_type ''vosk_small'' e), Some ''vosk_small'')
          else if (case engine_type e of NoAttr \<Rightarrow> False | Attr x \<Rightarrow> truthy x) then
            (Some e, (case engine_type e of NoAttr \<Rightarrow> None | Attr x \<Rightarrow> x))
          else if engine_cls e = SherpaOnnxASR then (Some e, Some (sherpa_inferred e))
          else (Some e, None))"

definition is_VoskASR :: "engine option \<Rightarrow> bool" where
  "is_VoskASR eo = (case eo of None \<Rightarrow> False | Some e \<Rightarrow> engine_cls e = VoskASR)"

definition get_current_engine_type :: "manager \<Rightarrow> manager \<times> string option \<times> warning list" where
  "get_current_engine_type s =
     (if is_VoskASR (current_engine s) then
        let s1 = s\<lparr>current_engine := map_option (correct_engine_type ''vosk_small'') (current_engine s)\<rparr>;
            s2 = (if model_type s1 \<noteq> Some ''vosk_small'' then s1\<lparr>model_type := Some ''vosk_small''\<rparr>
                  else s1)
        in (s2, Some ''vosk_small'', [])
      else
        let checked = (truthy (model_type s) \<and> current_engine s \<noteq> None);
            is_match = (checked \<and>
                        (case current_engine s of None \<Rightarrow> False
                         | Some e \<Rightarrow> engine_matches (str_of (model_type s)) e));
            w1 = (if checked \<and> \<not> is_match then [EngineMismatch (str_of (model_type s))] else [])
        in
        if is_match then (s, model_type s, [])
        else
          (case infer_engine_type (current_engine s) of (eo, et) \<Rightarrow>
             let s1 = s\<lparr>current_engine := eo\<rparr> in
             if truthy (model_type s1) \<and> truthy et \<and> model_type s1 \<noteq> et then
               (s1, model_type s1,
                w1 @ [InferredMismatch (str_of (model_type s1)) (str_of et),
                      KeepModelType (str_of (model_type s1))])
             else if \<not> truthy (model_type s1) \<and> truthy et then
               (s1\<lparr>model_type := et\<rparr>, et, w1)
             else if truthy et then (s1, et, w1)
             else if truthy (model_type s1) then (s1, model_type s1, w1)
             else (s1, None, w1)))"

subsection \<open>Loading: \<open>initialize_engine\<close> and \<open>load_model\<close>\<close>

text \<open>\<open>if hasattr(e, 'engine_type'): e.engine_type = v\<close>.\<close>

definition set_engine_type_if_present :: "string \<Rightarrow> engine \<Rightarrow> engine" where
  "set_engine_type_if_present v e =
     (case engine_type e of NoAttr \<Rightarrow> e | Attr x \<Rightarrow> e\<lparr>engine_type := Attr (Some v)\<rparr>)"

text \<open>
  The end of \<open>initialize_engine\<close>, once an engine is bound: the check of the resolved
  type against the requested one, and the signal.
\<close>

definition finish_initialize :: "manager \<Rightarrow> string \<Rightarrow> manager \<times> bool" where
  "finish_initialize s et =
     (case get_current_engine_type s of (s1, current_engine_type, ws) \<Rightarrow>
        let s2 =
          (if current_engine_type \<noteq> Some et then
             (if et = ''vosk_small'' then
                s1\<lparr>current_engine := map_option (set_engine_type_if_present ''vosk_small'') (current_engine s1),
                   model_type := Some ''vosk_small''\<rparr>
              else if truthy (model_type s1) \<and> model_type s1 = Some et then
                s1\<lparr>current_engine :=
                      map_option (set_engine_type_if_present (str_of (model_type s1))) (current_engine s1)\<rparr>
              else s1\<lparr>model_type := current_engine_type\<rparr>)
           else s1)
        in (s2\<lparr>emitted := emitted s2 @ [ModelLoaded True]\<rparr>, True))"

text \<open>
  \<open>initialize_engine(engine_type)\<close>, in three parts: its branch for \<open>vosk\<close> and
  \<open>vosk_small\<close>, its branch for the names that start with \<open>sherpa\<close>, and the function
  itself. A missing \<open>path\<close> key raises \<open>KeyError\<close> inside the outer \<open>try\<close>, whose
  handler emits \<open>model_loaded(False)\<close>. A constructor that raises is caught by the inner
  handler before \<open>current_engine\<close> is assigned; the checks that follow the assignment
  return with the new engine bound.
\<close>

definition initialize_vosk :: "env \<Rightarrow> manager \<Rightarrow> model_cfg \<Rightarrow> string \<Rightarrow> manager \<times> bool" where
  "initialize_vosk ev s mc et =
     (case cfg_path mc of
        None \<Rightarrow> (s\<lparr>emitted := emitted s @ [ModelLoaded False]\<rparr>, False)
      | Some p \<Rightarrow>
          if p \<notin> path_exists ev then (s, False)
          else if \<not> validate_model_path ev s p (Some et) then (s, False)
          else
            (case new_VoskASR ev p of
               Raises \<Rightarrow> (s, False)
             | Returns e0 \<Rightarrow>
                 let e = e0\<lparr>engine_cls := VoskASR\<rparr>;
                     s1 = s\<lparr>current_engine := Some e\<rparr>
                 in
                 if \<not> model e \<or> \<not> recognizer e then (s1, False)
                 else
                   finish_initialize
                     (s1\<lparr>current_engine := Some (e\<lparr>engine_type := Attr (Some ''vosk_small'')\<rparr>)\<rparr>)
                     et))"

definition initialize_sherpa :: "env \<Rightarrow> manager \<Rightarrow> model_cfg \<Rightarrow> string \<Rightarrow> manager \<times> bool" where
  "initialize_sherpa ev s mc et =
     (case cfg_path mc of
        None \<Rightarrow> (s\<lparr>emitted := emitted s @ [ModelLoaded False]\<rparr>, False)
      | Some p \<Rightarrow>
          if p \<notin> path_exists ev then (s, False)
          else if \<not> validate_model_path ev s p (Some et) then (s, False)
          else
            let ec =
              (if et = ''sherpa_0626_int8'' then
                 \<lparr>ec_type = Some ''int8'', ec_name = Some ''0626''\<rparr>
               else if et = ''sherpa_0626_std'' \<or> et = ''sherpa_0626'' then
                 \<lparr>ec_type = Some ''standard'', ec_name = Some ''0626''\<rparr>
               else
                 \<lparr>ec_type = Some (if et = ''sherpa_int8'' then ''int8'' else ''standard''),
                  ec_name = Some []\<rparr>)
            in
            (case new_SherpaOnnxASR ev p ec of
               Raises \<Rightarrow> (s, False)
             | Returns e0 \<Rightarrow>
                 let e = e0\<lparr>engine_cls := SherpaOnnxASR\<rparr> in
                 (case engine_setup ev e of (e', r) \<Rightarrow>
                    let e1 = e'\<lparr>engine_cls := SherpaOnnxASR\<rparr> in
                    (case r of
                       Raises \<Rightarrow> (s\<lparr>current_engine := Some e1\<rparr>, False)
                     | Returns ok \<Rightarrow>
                         if \<not> ok then (s\<lparr>current_engine := Some e1\<rparr>, False)
                         else finish_initialize (s\<lparr>current_engine := Some e1\<rparr>) et))))"

definition initialize_engine :: "env \<Rightarrow> manager \<Rightarrow> string \<Rightarrow> manager \<times> bool" where
  "initialize_engine ev s engine_type_arg =
     (let et = (if truthy (model_type s) \<and> model_type s \<noteq> Some engine_type_arg
                then str_of (model_type s) else engine_type_arg) in
      case models_config s et of
        None \<Rightarrow> (s, False)
      | Some mc \<Rightarrow>
          if cfg_enabled mc \<noteq> Some True then (s, False)
          else if et = ''vosk'' \<or> et = ''vosk_small'' then initialize_vosk ev s mc et
          else if prefix ''sherpa'' et then initialize_sherpa ev s mc et
          else (s, False))"

text \<open>
  \<open>load_model(model_name)\<close>. Nothing inside its \<open>try\<close> raises in this model (the
  validator and \<open>initialize_engine\<close> catch their own faults), so its handler has no
  branch here.
\<close>

definition load_model :: "env \<Rightarrow> manager \<Rightarrow> string \<Rightarrow> manager \<times> bool" where
  "load_model ev s model_name =
     (case models_config s model_name of
        None \<Rightarrow> (s, False)
      | Some mc \<Rightarrow>
          let model_path = (case cfg_path mc of None \<Rightarrow> [] | Some p \<Rightarrow> p) in
          if model_path = [] then (s, False)
          else if model_path \<notin> path_exists ev then (s, False)
          else if \<not> validate_model_files ev s model_path (Some model_name) then (s, False)
          else
            let s1 = s\<lparr>current_model_type := Some model_name\<rparr>;
                s2 = (if model_name = ''vosk_small'' then s1\<lparr>model_type := Some ''vosk_small''\<rparr>
                      else s1\<lparr>model_type := Some model_name\<rparr>)
            in
            (case initialize_engine ev s2 model_name of (s3, ok) \<Rightarrow>
               if \<not> ok then (s3, False)
               else
                 (s3\<lparr>current_model := True,
                     emitted := emitted s3 @ [ModelLoaded True, StatusUpdated]\<rparr>, True)))"

subsection \<open>File transcription: \<open>transcribe_file\<close>\<close>

text \<open>
  The part of \<open>transcribe_file\<close> from the capability check on. \<open>et\<close> is the engine type
  resolved before it.
\<close>

definition transcribe_with_engine :: "env \<Rightarrow> manager \<Rightarrow> string option \<Rightarrow> string \<Rightarrow> manager \<times> string option" where
  "transcribe_with_engine ev s et file_path =
     (case current_engine s of
        None \<Rightarrow> (s, None)
      | Some e \<Rightarrow>
          if \<not> has_transcribe_file e then (s, None)
          else if file_path \<notin> path_exists ev then (s, None)
          else if et = Some ''vosk_small'' \<and> \<not> suffix ''.wav'' (lower file_path) then
            (case file_transcriber_texts ev e file_path of
               Raises \<Rightarrow> (s, None)
             | Returns transcription_result \<Rightarrow>
                 if transcription_result \<noteq> [] then (s, Some (join_space transcription_result))
                 else (s, None))
          else
            (case engine_transcribe_file ev e file_path of
               Raises \<Rightarrow> (s, None)
             | Returns result \<Rightarrow> (s, result)))"

definition transcribe_file :: "env \<Rightarrow> manager \<Rightarrow> string \<Rightarrow> manager \<times> string option" where
  "transcribe_file ev s file_path =
     (let s1 = (if current_engine s = None then
                  (if truthy (model_type s) then fst (initialize_engine ev s (str_of (model_type s)))
                   else fst (initialize_engine ev s ''vosk_small''))
                else s)
      in
      if current_engine s1 = None then (s1, None)
      else
        (case get_current_engine_type s1 of (s2, et, ws) \<Rightarrow>
           if truthy (model_type s2) \<and> truthy et \<and> model_type s2 \<noteq> et then
             (case initialize_engine ev s2 (str_of (model_type s2)) of (s3, ok) \<Rightarrow>
                if \<not> ok then (s3, None)
                else
                  (case get_current_engine_type s3 of (s4, et', ws') \<Rightarrow>
                     if et' \<noteq> model_type s4 then (s4, None)
                     else transcribe_with_engine ev s4 et' file_path))
           else transcribe_with_engine ev s2 et file_path))"

subsection \<open>Live recognition: \<open>start_recognition\<close> and \<open>stop_recognition\<close>\<close>

definition start_recognition :: "manager \<Rightarrow> manager \<times> bool" where
  "start_recognition s =
     (if current_engine s = None then (s\<lparr>emitted := emitted s @ [ErrorOccurred]\<rparr>, False)
      else if current_device s = None then (s\<lparr>emitted := emitted s @ [ErrorOccurred]\<rparr>, False)
      else if is_recognizing s then (s, True)
      else (s\<lparr>is_recognizing := True,
              emitted := emitted s @ [RecognitionStarted, StatusUpdated]\<rparr>, True))"

definition stop_recognition :: "manager \<Rightarrow> manager \<times> bool" where
  "stop_recognition s =
     (if \<not> is_recognizing s then (s, True)
      else (s\<lparr>is_recognizing := False,
              emitted := emitted s @ [RecognitionStopped, StatusUpdated]\<rparr>, True))"

section \<open>The transcription pipeline: \<open>FileTranscriber\<close>\<close>

subsection \<open>Data\<close>





subsection \<open>\<open>_cleanup_temp_files\<close> and \<open>stop_transcription\<close>\<close>





subsection \<open>The worker\<close>














text \<open>
  \<open>_transcribe_file_with_vosk\<close>, in the three stages its comments name, last stage
  first. Each stage returns the transcriber, the signals emitted from its start on, and
  how the run ended. \<open>self.signals.transcription_finished.emit()\<close> before an early
  \<open>return\<close> raises when the signal is missing.
\<close>








subsection \<open>Well-formed progress\<close>



section \<open>Example configurations\<close>

text \<open>Concrete engines, managers and environments at which the results below are evaluated.\<close>

definition vosk_engine :: engine where
  "vosk_engine = \<lparr>engine_cls = VoskASR, engine_type = NoAttr, model_dir = NoAttr,
     is_int8 = NoAttr, model_config = NoAttr, model = True, recognizer = True,
     has_transcribe_file = True\<rparr>"

definition loopback_device :: device where
  "loopback_device = \<lparr>dev_index = ''mic_0'', dev_name = ''loopback'', dev_is_input = True\<rparr>"

definition sherpa_engine :: engine where
  "sherpa_engine = \<lparr>engine_cls = SherpaOnnxASR, engine_type = NoAttr,
     model_dir = Attr ''/models/sherpa-std'', is_int8 = Attr False,
     model_config = Attr \<lparr>ec_type = Some ''standard'', ec_name = Some []\<rparr>,
     model = True, recognizer = True, has_transcribe_file = False\<rparr>"

definition example_config :: "string \<rightharpoonup> model_cfg" where
  "example_config =
     [''vosk_small'' \<mapsto> \<lparr>cfg_path = Some ''/models/vosk'', cfg_enabled = Some True, cfg_type = None\<rparr>,
      ''sherpa_onnx_std'' \<mapsto> \<lparr>cfg_path = Some ''/models/sherpa-std'', cfg_enabled = Some True,
                              cfg_type = Some ''standard''\<rparr>,
      ''sherpa_onnx_int8'' \<mapsto> \<lparr>cfg_path = Some ''/opt/vosk-api/models/sherpa-int8'',
                               cfg_enabled = Some True, cfg_type = Some ''int8''\<rparr>]"

text \<open>The manager as \<open>__init__\<close> leaves it when the default model is \<open>vosk_small\<close>.\<close>

definition fresh_manager :: manager where
  "fresh_manager = \<lparr>models_config = example_config, current_model = False,
     model_type = Some ''vosk_small'', current_model_type = None, current_engine = None,
     current_device = None, is_recognizing = False, emitted = []\<rparr>"

definition ready_manager :: manager where
  "ready_manager = fresh_manager\<lparr>current_engine := Some vosk_engine,
     current_device := Some loopback_device\<rparr>"

text \<open>
  A manager whose declared model is \<open>sherpa_onnx_int8\<close> and whose engine is a
  full-precision \<open>SherpaOnnxASR\<close> without a \<open>transcribe_file\<close> method.
\<close>

definition loaded_manager :: manager where
  "loaded_manager = \<lparr>models_config = example_config, current_model = True,
     model_type = Some ''sherpa_onnx_int8'', current_model_type = Some ''sherpa_onnx_int8'',
     current_engine = Some sherpa_engine, current_device = None, is_recognizing = False,
     emitted = []\<rparr>"

text \<open>
  A file system with a complete Vosk model, an empty directory for \<open>sherpa_onnx_std\<close>
  and a complete int8 transducer model in a directory whose path contains \<open>vosk\<close>; a
  \<open>VoskASR\<close> constructor that returns an engine whose model and recognizer are empty.
\<close>

definition example_env :: env where
  "example_env = \<lparr>
     path_exists = {''/models/vosk'', ''/models/vosk/am'', ''/models/vosk/am/final.mdl'',
                    ''/models/sherpa-std'',
                    ''/opt/vosk-api/models/sherpa-int8'',
                    ''/opt/vosk-api/models/sherpa-int8/encoder-epoch-99-avg-1.int8.onnx'',
                    ''/opt/vosk-api/models/sherpa-int8/decoder-epoch-99-avg-1.int8.onnx'',
                    ''/opt/vosk-api/models/sherpa-int8/joiner-epoch-99-avg-1.int8.onnx'',
                    ''/opt/vosk-api/models/sherpa-int8/tokens.txt''},
     path_isdir = {''/models/vosk'', ''/models/vosk/am'', ''/models/sherpa-std'',
                   ''/opt/vosk-api/models/sherpa-int8''},
     new_VoskASR = (\<lambda>p. Returns \<lparr>engine_cls = VoskASR, engine_type = NoAttr, model_dir = NoAttr,
                       is_int8 = NoAttr, model_config = NoAttr, model = False, recognizer = False,
                       has_transcribe_file = True\<rparr>),
     new_SherpaOnnxASR = (\<lambda>p c. Raises),
     engine_setup = (\<lambda>e. (e, Returns True)),
     engine_transcribe_file = (\<lambda>e p. Returns None),
     file_transcriber_texts = (\<lambda>e p. Returns [])\<rparr>"

(*VERIFIED*)





section \<open>Text shaping\<close>





section \<open>Live recognition\<close>

text \<open>
  C9. Two calls of \<open>stop_recognition\<close> in a row both return success; the second changes
  nothing, so \<open>recognition_stopped\<close> is emitted once if recognition was running and not
  at all otherwise; stopping when recognition is not running leaves the manager as it is.
\<close>

theorem stop_recognition_twice:
  assumes "stop_recognition s = (s1, r1)" and "stop_recognition s1 = (s2, r2)"
  shows "r1 \<and> r2 \<and> s2 = s1
       \<and> count_list (emitted s2) RecognitionStopped =
           count_list (emitted s) RecognitionStopped + (if is_recognizing s then 1 else 0)
       \<and> (if is_recognizing s then \<not> is_recognizing s1 else s1 = s)"
  using assms by (auto simp: stop_recognition_def split: if_splits)

theorem stop_recognition_twice_witness:
  "fst (start_recognition ready_manager) =
     ready_manager\<lparr>is_recognizing := True, emitted := [RecognitionStarted, StatusUpdated]\<rparr>
   \<and> snd (stop_recognition (fst (start_recognition ready_manager)))
   \<and> snd (stop_recognition (fst (stop_recognition (fst (start_recognition ready_manager)))))
   \<and> count_list (emitted (fst (stop_recognition (fst (stop_recognition
        (fst (start_recognition ready_manager))))))) RecognitionStopped = 1"
  using stop_recognition_twice
    [of "fst (start_recognition ready_manager)"
        "fst (stop_recognition (fst (start_recognition ready_manager)))"
        "snd (stop_recognition (fst (start_recognition ready_manager)))"
        "fst (stop_recognition (fst (stop_recognition (fst (start_recognition ready_manager)))))"
        "snd (stop_recognition (fst (stop_recognition (fst (start_recognition ready_manager)))))"]
  by (simp add: start_recognition_def stop_recognition_def ready_manager_def fresh_manager_def)

section \<open>Evaluation at the example configurations\<close>

lemmas eval_defs = example_env_def loaded_manager_def fresh_manager_def example_config_def
  sherpa_engine_def vosk_engine_def
  load_model_def validate_model_files_def validate_model_path_def vosk_files_ok_def
  sherpa_files_ok_def sherpa_required_files_def path_join_def initialize_engine_def
  initialize_vosk_def initialize_sherpa_def truthy_def str_of_def lower_def lower_char_def
  ascii_lowercase_def ascii_uppercase_def Let_def sublist_code suffix_to_prefix
  get_current_engine_type_def is_VoskASR_def engine_matches_def infer_engine_type_def
  sherpa_inferred_def attr_true_def correct_engine_type_def

section \<open>Resolving the active identity\<close>

text \<open>
  What \<open>get_current_engine_type\<close> does in its three situations: no engine, a
  \<open>VoskASR\<close> engine, and any other engine under a declared model type.
\<close>

lemma engine_type_no_engine:
  "current_engine s = None \<Longrightarrow>
   get_current_engine_type s = (s, (if truthy (model_type s) then model_type s else None), [])"
  by (simp add: get_current_engine_type_def is_VoskASR_def infer_engine_type_def truthy_def)

lemma engine_type_vosk:
  assumes "current_engine s = Some e" "engine_cls e = VoskASR"
  shows "get_current_engine_type s =
     (s\<lparr>current_engine := Some (correct_engine_type ''vosk_small'' e), model_type := Some ''vosk_small''\<rparr>,
      Some ''vosk_small'', [])"
  using assms by (simp add: get_current_engine_type_def is_VoskASR_def Let_def)

lemma engine_type_not_vosk:
  assumes "truthy (model_type s)" "current_engine s = Some e" "engine_cls e \<noteq> VoskASR"
    "get_current_engine_type s = (s', r, ws)"
  shows "r = model_type s \<and> s' = s \<and> (ws = [] \<longleftrightarrow> engine_matches (str_of (model_type s)) e)"
  using assms
  by (auto simp: get_current_engine_type_def is_VoskASR_def Let_def infer_engine_type_def
      split: if_splits prod.splits)

text \<open>
  After the call the declared and the resolved type never disagree, and the engine is the
  one that was bound before, up to a corrected \<open>engine_type\<close> attribute.
\<close>

lemma engine_type_agrees:
  assumes "get_current_engine_type s = (s', r, ws)"
  shows "\<not> (truthy (model_type s') \<and> truthy r \<and> model_type s' \<noteq> r)"
proof (cases "current_engine s")
  case None
  with assms show ?thesis by (auto simp: engine_type_no_engine split: if_splits)
next
  case (Some e)
  show ?thesis
  proof (cases "engine_cls e = VoskASR")
    case True
    with Some assms show ?thesis by (auto simp: engine_type_vosk)
  next
    case False
    show ?thesis
    proof (cases "truthy (model_type s)")
      case True
      from engine_type_not_vosk[OF True Some False assms] show ?thesis by simp
    next
      case F: False
      with Some False assms show ?thesis
        by (auto simp: get_current_engine_type_def is_VoskASR_def Let_def
            split: if_splits prod.splits)
    qed
  qed
qed

lemma engine_type_keeps_engine:
  assumes "current_engine s = Some e" "get_current_engine_type s = (s', r, ws)"
  shows "current_engine s' = Some e \<or>
         current_engine s' = Some (e\<lparr>engine_type := Attr (Some ''vosk_small'')\<rparr>)"
proof (cases "engine_cls e = VoskASR")
  case True
  with assms show ?thesis
    by (auto simp: engine_type_vosk correct_engine_type_def split: attr.splits)
next
  case False
  with assms show ?thesis
    by (auto simp: get_current_engine_type_def is_VoskASR_def Let_def infer_engine_type_def
        split: if_splits prod.splits)
qed

text \<open>
  C5 (the code departs from the claim). With no engine loaded, \<open>get_current_engine_type\<close>
  returns \<open>None\<close> only if no model type is declared; the manager as \<open>__init__\<close> leaves it
  has the default model type and no engine, and gets \<open>vosk_small\<close> back.
\<close>

theorem engine_type_without_engine:
  "current_engine fresh_manager = None
   \<and> get_current_engine_type fresh_manager = (fresh_manager, Some ''vosk_small'', [])"
  by (simp add: eval_defs)

text \<open>
  C2, as stated, fails: with the declared model type \<open>sherpa_onnx_int8\<close> and a
  \<open>VoskASR\<close> engine, whose inferred type is \<open>vosk_small\<close>, the function returns
  \<open>vosk_small\<close> and overwrites the declared model type with it.
\<close>

theorem vosk_engine_overrides_declared_identity:
  "truthy (model_type (loaded_manager\<lparr>current_engine := Some vosk_engine\<rparr>))
   \<and> snd (infer_engine_type (current_engine (loaded_manager\<lparr>current_engine := Some vosk_engine\<rparr>)))
       = Some ''vosk_small''
   \<and> model_type (loaded_manager\<lparr>current_engine := Some vosk_engine\<rparr>) = Some ''sherpa_onnx_int8''
   \<and> fst (snd (get_current_engine_type (loaded_manager\<lparr>current_engine := Some vosk_engine\<rparr>)))
       = Some ''vosk_small''
   \<and> model_type (fst (get_current_engine_type (loaded_manager\<lparr>current_engine := Some vosk_engine\<rparr>)))
       = Some ''vosk_small''"
  by (simp add: eval_defs)

text \<open>
  C2, amended. When a model type is declared and an engine is loaded:
  if the engine is not a \<open>VoskASR\<close>, the function returns the declared model type and
  leaves the manager as it is, whatever the engine's attributes say, and it logs a
  warning exactly when the attributes do not match the declared type;
  if the engine is a \<open>VoskASR\<close>, it returns \<open>vosk_small\<close> and sets the model type to it.
\<close>

theorem declared_identity_reported:
  assumes "truthy (model_type s)" and "current_engine s = Some e"
    and "get_current_engine_type s = (s', r, ws)"
  shows "if engine_cls e = VoskASR
         then r = Some ''vosk_small'' \<and> model_type s' = Some ''vosk_small''
         else r = model_type s \<and> s' = s
              \<and> (ws = [] \<longleftrightarrow> engine_matches (str_of (model_type s)) e)"
proof (cases "engine_cls e = VoskASR")
  case True
  with assms show ?thesis by (auto simp: engine_type_vosk)
next
  case False
  with engine_type_not_vosk[OF assms(1,2) False assms(3)] show ?thesis by simp
qed

theorem declared_identity_reported_witness:
  "truthy (model_type loaded_manager)
   \<and> snd (infer_engine_type (current_engine loaded_manager)) = Some ''sherpa_onnx_std''
   \<and> get_current_engine_type loaded_manager =
       (loaded_manager, Some ''sherpa_onnx_int8'',
        [EngineMismatch ''sherpa_onnx_int8'',
         InferredMismatch ''sherpa_onnx_int8'' ''sherpa_onnx_std'',
         KeepModelType ''sherpa_onnx_int8''])"
  using declared_identity_reported
    [of loaded_manager sherpa_engine
        "fst (get_current_engine_type loaded_manager)"
        "fst (snd (get_current_engine_type loaded_manager))"
        "snd (snd (get_current_engine_type loaded_manager))"]
  by (simp add: eval_defs)

section \<open>File transcription without the capability\<close>

text \<open>
  C4. When the loaded engine has no \<open>transcribe_file\<close> method, \<open>transcribe_file\<close>
  returns \<open>None\<close>; the only change to the manager is the one identity resolution makes,
  and the engine stays the one that was loaded (a \<open>VoskASR\<close> may have its
  \<open>engine_type\<close> attribute corrected): no other engine is constructed in its place.
\<close>

theorem transcribe_file_unsupported:
  assumes "current_engine s = Some e" and "\<not> has_transcribe_file e"
    and "transcribe_file ev s file_path = (s', r)"
  shows "r = None \<and> s' = fst (get_current_engine_type s)
       \<and> (current_engine s' = Some e \<or>
          current_engine s' = Some (e\<lparr>engine_type := Attr (Some ''vosk_small'')\<rparr>))"
proof -
  obtain s2 et ws where g: "get_current_engine_type s = (s2, et, ws)"
    by (cases "get_current_engine_type s") auto
  from engine_type_agrees[OF g] have ag: "\<not> (truthy (model_type s2) \<and> truthy et \<and> model_type s2 \<noteq> et)" .
  from engine_type_keeps_engine[OF assms(1) g] have en:
    "current_engine s2 = Some e \<or> current_engine s2 = Some (e\<lparr>engine_type := Attr (Some ''vosk_small'')\<rparr>)" .
  have "transcribe_file ev s file_path = transcribe_with_engine ev s2 et file_path"
    using assms(1) g ag by (auto simp: transcribe_file_def Let_def)
  moreover have "transcribe_with_engine ev s2 et file_path = (s2, None)"
    using en assms(2) by (auto simp: transcribe_with_engine_def)
  ultimately show ?thesis using assms(3) g en by auto
qed

theorem transcribe_file_unsupported_witness:
  "current_engine loaded_manager = Some sherpa_engine
   \<and> has_transcribe_file sherpa_engine = False
   \<and> transcribe_file example_env loaded_manager ''/audio/talk.wav'' = (loaded_manager, None)"
  using transcribe_file_unsupported
    [of loaded_manager sherpa_engine example_env "''/audio/talk.wav''"
        "fst (transcribe_file example_env loaded_manager ''/audio/talk.wav'')"
        "snd (transcribe_file example_env loaded_manager ''/audio/talk.wav'')"]
  by (simp add: eval_defs transcribe_file_def transcribe_with_engine_def)

section \<open>Loading a model\<close>












section \<open>Model validation\<close>

text \<open>The two validators agree on every non-empty path that does not contain \<open>vosk\<close>.\<close>

lemma validators_agree:
  assumes "model_path \<noteq> []" and "\<not> sublist ''vosk'' (lower model_path)"
  shows "validate_model_files ev s model_path k = validate_model_path ev s model_path k"
  using assms by (simp add: validate_model_files_def validate_model_path_def Let_def)

text \<open>
  C3 (the code departs from the claim). The kind \<open>sherpa_onnx_int8\<close> is given and all
  four files of its template are in the directory, but the path contains \<open>vosk\<close>:
  \<open>validate_model_files\<close> applies the Vosk layout and fails, where
  \<open>_validate_model_path\<close>, which looks at the kind only, passes.
\<close>

theorem validate_model_files_infers_kind_from_path:
  "sherpa_files_ok example_env loaded_manager ''/opt/vosk-api/models/sherpa-int8'' ''sherpa_onnx_int8''
   \<and> validate_model_path example_env loaded_manager ''/opt/vosk-api/models/sherpa-int8''
        (Some ''sherpa_onnx_int8'') = True
   \<and> validate_model_files example_env loaded_manager ''/opt/vosk-api/models/sherpa-int8''
        (Some ''sherpa_onnx_int8'') = False"
  by (simp add: eval_defs)

section \<open>Stopping a transcription\<close>






section \<open>Text shaping, word by word\<close>

lemma lower_upper_char: "lower_char (upper_char c) = lower_char c"
  unfolding upper_char_def lower_char_def ascii_lowercase_def ascii_uppercase_def
  by simp

lemma is_space_upper_char: "is_space (upper_char c) = is_space c"
  unfolding upper_char_def is_space_def ascii_lowercase_def ascii_uppercase_def
  by simp

lemma lower_char_terminal:
  assumes "c \<in> set terminal_marks"
  shows "lower_char c = c"
proof -
  from assms have "c = CHR ''.'' \<or> c = CHR ''?'' \<or> c = CHR ''!'' \<or> c = CHR '','' \<or> c = CHR '';''
      \<or> c = CHR '':'' \<or> c = CHR ''-''"
    by (simp add: terminal_marks_def)
  then show ?thesis
    by (elim disjE) (simp_all add: lower_char_def ascii_lowercase_def ascii_uppercase_def)
qed

lemma starters_end_in_letters:
  "x \<in> set question_starters \<Longrightarrow> x \<noteq> [] \<and> last x \<notin> set terminal_marks"
  unfolding question_starters_def terminal_marks_def by auto

lemma split_from_word:
  "\<forall>c \<in> set w. \<not> is_space c \<Longrightarrow> split_from cur (w @ rest) = split_from (cur @ w) rest"
  by (induction w arbitrary: cur) simp_all

lemma py_split_one_word:
  assumes "w \<noteq> []" and "\<forall>c \<in> set w. \<not> is_space c"
  shows "py_split w = [w]"
  using split_from_word[OF assms(2), of "[]" "[]"] assms(1) by (simp add: py_split_def)

lemma py_split_first_word:
  assumes "w \<noteq> []" and "\<forall>c \<in> set w. \<not> is_space c" and "is_space c"
  shows "py_split (w @ c # rest) = w # py_split rest"
  using split_from_word[OF assms(2), of "[]" "c # rest"] assms(1,3) by (simp add: py_split_def)

text \<open>A text of one word is never turned into a question.\<close>

lemma format_text_one_word:
  assumes "w \<noteq> []" and "\<forall>c \<in> set w. \<not> is_space c"
  shows "format_text w =
     (let text1 = upper_char (hd w) # tl w
      in if last text1 \<notin> set terminal_marks then text1 @ ''.'' else text1)"
proof -
  define text1 where "text1 = upper_char (hd w) # tl w"
  define text2 where "text2 = (if last text1 \<notin> set terminal_marks then text1 @ ''.'' else text1)"
  have ns1: "\<forall>c \<in> set text1. \<not> is_space c"
    using assms by (cases w) (auto simp: text1_def is_space_upper_char)
  have ns2: "\<forall>c \<in> set text2. \<not> is_space c"
    using ns1 by (auto simp: text2_def is_space_def)
  have ne2: "text2 \<noteq> []" by (simp add: text2_def text1_def)
  have tm2: "last text2 \<in> set terminal_marks" by (simp add: text2_def terminal_marks_def)
  have sp: "py_split text2 = [text2]" by (rule py_split_one_word[OF ne2 ns2])
  have "lower text2 \<notin> set question_starters"
  proof
    assume "lower text2 \<in> set question_starters"
    from starters_end_in_letters[OF this] have "last (lower text2) \<notin> set terminal_marks" by simp
    moreover have "last (lower text2) = last text2"
      using ne2 tm2 by (simp add: lower_def last_map lower_char_terminal)
    ultimately show False using tm2 by simp
  qed
  with sp assms(1) show ?thesis
    by (simp add: format_text_def Let_def text1_def[symmetric] text2_def[symmetric])
qed

text \<open>
  A text whose first word is followed by white space becomes a question exactly when that
  word is a lead word and the text, capitalised and punctuated, ends in a period.
\<close>

lemma format_text_first_word:
  assumes "w \<noteq> []" and "\<forall>c \<in> set w. \<not> is_space c" and "is_space c"
  shows "format_text (w @ c # rest) =
     (let text1 = upper_char (hd w) # tl w @ c # rest;
          text2 = (if last text1 \<notin> set terminal_marks then text1 @ ''.'' else text1)
      in if lower w \<in> set question_starters \<and> last text2 = CHR ''.''
         then butlast text2 @ ''?'' else text2)"
proof -
  define w' where "w' = upper_char (hd w) # tl w"
  define text1 where "text1 = w' @ c # rest"
  define text2 where "text2 = (if last text1 \<notin> set terminal_marks then text1 @ ''.'' else text1)"
  have w'ne: "w' \<noteq> []" by (simp add: w'_def)
  have w'ns: "\<forall>c \<in> set w'. \<not> is_space c"
    using assms(1,2) by (cases w) (auto simp: w'_def is_space_upper_char)
  have lw: "lower w' = lower w"
    using assms(1) by (cases w) (simp_all add: w'_def lower_def lower_upper_char)
  have t1: "upper_char (hd (w @ c # rest)) # tl (w @ c # rest) = text1"
    using assms(1) by (cases w) (simp_all add: text1_def w'_def)
  have "\<exists>rest'. text2 = w' @ c # rest'"
    by (auto simp: text2_def text1_def)
  then obtain rest' where "text2 = w' @ c # rest'" by blast
  with py_split_first_word[OF w'ne w'ns assms(3)]
  have sp: "py_split text2 \<noteq> [] \<and> hd (py_split text2) = w'" by simp
  have main: "format_text (w @ c # rest) =
      (if lower w \<in> set question_starters \<and> last text2 = CHR ''.''
       then butlast text2 @ ''?'' else text2)"
    using sp unfolding format_text_def Let_def t1 text2_def[symmetric] lw[symmetric] by auto
  have rhs: "(let text1 = upper_char (hd w) # tl w @ c # rest;
          text2 = (if last text1 \<notin> set terminal_marks then text1 @ ''.'' else text1)
      in if lower w \<in> set question_starters \<and> last text2 = CHR ''.''
         then butlast text2 @ ''?'' else text2) =
      (if lower w \<in> set question_starters \<and> last text2 = CHR ''.''
       then butlast text2 @ ''?'' else text2)"
    unfolding Let_def text2_def text1_def w'_def append_Cons ..
  show ?thesis unfolding rhs by (rule main)
qed

lemma format_text_exclamation:
  assumes "s \<noteq> []" and "last s = CHR ''!''"
  shows "format_text s = upper_char (hd s) # tl s"
proof -
  have up: "upper_char (CHR ''!'') = CHR ''!''"
    by (simp add: upper_char_def ascii_lowercase_def ascii_uppercase_def)
  have "last (upper_char (hd s) # tl s) = CHR ''!''"
    using assms up by (cases s) (auto split: if_splits)
  then show ?thesis using assms(1)
    by (simp add: format_text_def Let_def terminal_marks_def)
qed

lemma format_text_examples:
  "format_text ''what is this'' = ''What is this?''"
  "format_text ''hello world'' = ''Hello world.''"
  "format_text ''stop that!'' = ''Stop that!''"
  by (simp_all add: format_text_def upper_char_def lower_def lower_char_def py_split_def is_space_def
      question_starters_def terminal_marks_def ascii_lowercase_def ascii_uppercase_def)

text \<open>
  C7 (the code departs from the claim). The three examples of the claim hold
  (\<open>format_text_examples\<close>), a text ending in an exclamation mark is only capitalised
  (\<open>format_text_exclamation\<close>), and a first word followed by white space decides as the
  claim says (\<open>format_text_first_word\<close>). But the period is appended before the text is
  split, so the only word of a one-word text carries it and matches no lead word: the
  lead word \<open>why\<close> alone keeps its period.
\<close>

theorem format_text_one_word_question:
  "format_text ''why'' = ''Why.''"
  by (simp add: format_text_def upper_char_def lower_def lower_char_def py_split_def is_space_def
      question_starters_def terminal_marks_def ascii_lowercase_def ascii_uppercase_def)


section \<open>Progress of a transcription job\<close>

























end
